theory Spec2Isabelle
  imports Main "HOL-Library.Word"
begin

unbundle bit_operations_syntax

section \<open>Common data model\<close>

text \<open>
  Python exceptions are values. Only the exceptions that the modelled code raises itself,
  or that the library calls it makes can raise, appear here.
\<close>

datatype error =
    ValueError string
  | KeyError string
  | OverflowError string
  | ZeroDivisionError
  | LibraryError string

text \<open>
  A \<open>datetime\<close> is the number of microseconds since the epoch; the code only compares
  datetimes, truncates them to seconds and formats them. Formatting (\<open>strftime\<close>) is a
  library function and is a parameter wherever it is used.
\<close>

type_synonym datetime = int

subsection \<open>Election (app/models/election.py)\<close>

record candidate =
  candidate_id :: string
  cand_name :: string
  cand_party :: string
  cand_constituency :: "string option"

record party =
  party_id :: string
  party_name :: string
  party_symbol :: "string option"

record election =
  el_election_id :: string
  el_name :: string
  el_description :: string
  el_candidates :: "candidate list"
  el_parties :: "party list"
  el_total_pr_seats :: int
  el_start_date :: datetime
  el_end_date :: datetime
  el_is_active :: bool
  el_public_key :: "string option"
  el_encrypted_key_bundle :: "string option"

definition is_ongoing :: "datetime \<Rightarrow> election \<Rightarrow> bool" where
  "is_ongoing now e \<longleftrightarrow> el_is_active e \<and> el_start_date e \<le> now \<and> now \<le> el_end_date e"

definition has_ended :: "datetime \<Rightarrow> election \<Rightarrow> bool" where
  "has_ended now e \<longleftrightarrow> now > el_end_date e"

fun get_candidate :: "election \<Rightarrow> string \<Rightarrow> candidate option" where
  "get_candidate e cid = find (\<lambda>c. candidate_id c = cid) (el_candidates e)"

fun get_party :: "election \<Rightarrow> string \<Rightarrow> party option" where
  "get_party e pid = find (\<lambda>p. party_id p = pid) (el_parties e)"

subsection \<open>Voter (app/models/voter.py)\<close>

text \<open>
  A voter object carries its MongoDB \<open>_id\<close> (\<open>None\<close> before the first save). The two
  lists are Python lists: order and duplicates are kept.
\<close>

record voter =
  v_oid :: "nat option"
  voter_id :: string
  citizenship_number_hash :: string
  password_hash :: string
  full_name :: string
  v_constituency :: string
  registered_at :: datetime
  elections_voted :: "string list"
  token_issued_for :: "string list"

definition has_voted_in :: "voter \<Rightarrow> string \<Rightarrow> bool" where
  "has_voted_in v eid \<longleftrightarrow> eid \<in> set (elections_voted v)"

definition has_token_for :: "voter \<Rightarrow> string \<Rightarrow> bool" where
  "has_token_for v eid \<longleftrightarrow> eid \<in> set (token_issued_for v)"

subsection \<open>Voting token (app/models/voting_token.py)\<close>

record voting_token =
  tok_oid :: "nat option"
  token_id :: string
  tok_election_id :: string
  tok_constituency :: string
  ballots_allowed :: "string list"
  ballots_used :: "string list"
  is_fully_used :: bool
  created_at :: datetime
  used_at :: "datetime option"

definition BALLOT_TYPES :: "string list" where
  "BALLOT_TYPES = [''fptp'', ''pr'']"

definition is_valid_for_ballot :: "voting_token \<Rightarrow> string \<Rightarrow> bool" where
  "is_valid_for_ballot t bt \<longleftrightarrow>
     (if is_fully_used t then False
      else if bt \<notin> set (ballots_allowed t) then False
      else if bt \<in> set (ballots_used t) then False
      else True)"

subsection \<open>Vote (app/models/vote.py)\<close>

text \<open>
  The stored vote document: the fields of \<open>Vote.to_dict\<close>, and the three fields that
  \<open>verify_receipt\<close> adds to the stored document with \<open>$push\<close>, \<open>$set\<close> and \<open>$inc\<close>
  (absent until the first verification).
\<close>

record vote =
  vote_oid :: "nat option"
  vote_election_id :: string
  ballot_type :: string
  encrypted_vote :: "string option"
  vote_constituency :: "string option"
  vote_timestamp :: datetime
  vote_token_id :: string
  receipt_id :: "string option"
  receipt_hash :: "string option"
  timestamp_str :: "string option"
  verification_history :: "(datetime \<times> string) list option"
  last_verified_at :: "datetime option"
  verification_count :: "int option"

subsection \<open>The database\<close>

text \<open>
  One list per MongoDB collection, in insertion order. \<open>find_one\<close> returns the first
  match, \<open>update_one\<close> changes the first match, \<open>insert_one\<close> appends and assigns an
  \<open>_id\<close>.
\<close>

record db =
  elections :: "election list"
  voters :: "voter list"
  voting_tokens :: "voting_token list"
  votes :: "vote list"

fun update_first :: "('a \<Rightarrow> bool) \<Rightarrow> ('a \<Rightarrow> 'a) \<Rightarrow> 'a list \<Rightarrow> 'a list" where
  "update_first P f [] = []"
| "update_first P f (x # xs) = (if P x then f x # xs else x # update_first P f xs)"

definition find_by_election_id :: "db \<Rightarrow> string \<Rightarrow> election option" where
  "find_by_election_id d eid = find (\<lambda>e. el_election_id e = eid) (elections d)"

definition find_by_token_id :: "db \<Rightarrow> string \<Rightarrow> voting_token option" where
  "find_by_token_id d tid = find (\<lambda>t. token_id t = tid) (voting_tokens d)"

text \<open>A fresh \<open>_id\<close>: one more than every \<open>_id\<close> in the collection.\<close>

definition fresh_oid :: "nat option list \<Rightarrow> nat" where
  "fresh_oid ids = Suc (fold max (map (\<lambda>i. case i of None \<Rightarrow> 0 | Some n \<Rightarrow> n) ids) 0)"

text \<open>\<open>Voter.mark_voted\<close>: the object is updated, and the stored document with the same
  \<open>_id\<close> gets the election pushed onto its list.\<close>

definition mark_voted :: "db \<Rightarrow> voter \<Rightarrow> string \<Rightarrow> db \<times> voter" where
  "mark_voted d v eid =
     (if eid \<notin> set (elections_voted v)
      then (d\<lparr>voters := update_first (\<lambda>w. v_oid w = v_oid v \<and> v_oid w \<noteq> None)
                           (\<lambda>w. w\<lparr>elections_voted := elections_voted w @ [eid]\<rparr>) (voters d)\<rparr>,
            v\<lparr>elections_voted := elections_voted v @ [eid]\<rparr>)
      else (d, v))"

text \<open>\<open>Voter.mark_token_issued\<close>: \<open>$addToSet\<close> adds the election to the stored list
  only when it is not there.\<close>

definition mark_token_issued :: "db \<Rightarrow> voter \<Rightarrow> string \<Rightarrow> db \<times> voter" where
  "mark_token_issued d v eid =
     (if eid \<notin> set (token_issued_for v)
      then (d\<lparr>voters := update_first (\<lambda>w. v_oid w = v_oid v \<and> v_oid w \<noteq> None)
                           (\<lambda>w. if eid \<in> set (token_issued_for w) then w
                                else w\<lparr>token_issued_for := token_issued_for w @ [eid]\<rparr>) (voters d)\<rparr>,
            v\<lparr>token_issued_for := token_issued_for v @ [eid]\<rparr>)
      else (d, v))"

section \<open>Token service (app/services/token_service.py)\<close>

text \<open>
  \<open>VotingToken.create\<close> draws token ids until one is unused. The draws of
  \<open>secrets.token_hex\<close> are the list \<open>draws\<close>; the loop returns the first unused one and
  does not return (\<open>None\<close>) when the list has none.
\<close>

definition token_create :: "string list \<Rightarrow> datetime \<Rightarrow> db \<Rightarrow> string \<Rightarrow> string \<Rightarrow> (db \<times> voting_token) option" where
  "token_create draws now d eid constituency =
     (case find (\<lambda>tid. find_by_token_id d tid = None) draws of
        None \<Rightarrow> None
      | Some tid \<Rightarrow>
          let t = \<lparr>tok_oid = Some (fresh_oid (map tok_oid (voting_tokens d))), token_id = tid,
                   tok_election_id = eid, tok_constituency = constituency,
                   ballots_allowed = [''fptp'', ''pr''], ballots_used = [],
                   is_fully_used = False, created_at = now, used_at = None\<rparr>
          in Some (d\<lparr>voting_tokens := voting_tokens d @ [t]\<rparr>, t))"

text \<open>
  \<open>issue_token\<close>. \<open>now1\<close> and \<open>now2\<close> are the clock readings of \<open>is_ongoing\<close> and
  \<open>has_ended\<close>, \<open>now3\<close> the creation time of the token. The result is the new database,
  the updated voter object and the returned triple; \<open>None\<close> when the loop of
  \<open>VotingToken.create\<close> does not return.
\<close>

definition issue_token ::
  "datetime \<Rightarrow> datetime \<Rightarrow> datetime \<Rightarrow> string list \<Rightarrow> db \<Rightarrow> voter \<Rightarrow> string
     \<Rightarrow> (db \<times> voter \<times> bool \<times> string \<times> string option) option" where
  "issue_token now1 now2 now3 draws d v eid =
     (case find_by_election_id d eid of
        None \<Rightarrow> Some (d, v, False, ''Election not found'', None)
      | Some e \<Rightarrow>
          if \<not> is_ongoing now1 e then
            (if has_ended now2 e then Some (d, v, False, ''This election has ended'', None)
             else Some (d, v, False, ''This election has not started yet'', None))
          else if has_voted_in v eid then
            Some (d, v, False, ''You have already voted in this election'', None)
          else if has_token_for v eid then
            Some (d, v, False, ''A voting token has already been issued for this election'', None)
          else
            (case token_create draws now3 d eid (v_constituency v) of
               None \<Rightarrow> None
             | Some (d1, t) \<Rightarrow>
                 let (d2, v2) = mark_token_issued d1 v eid
                 in Some (d2, v2, True, ''Voting token issued successfully'', Some (token_id t))))"

definition validate_token ::
  "db \<Rightarrow> string \<Rightarrow> string \<Rightarrow> bool \<times> string \<times> voting_token option" where
  "validate_token d tid eid =
     (if tid = [] then (False, ''Token is required'', None)
      else case find_by_token_id d tid of
        None \<Rightarrow> (False, ''Invalid voting token'', None)
      | Some t \<Rightarrow>
          if tok_election_id t \<noteq> eid then (False, ''Token is not valid for this election'', None)
          else if is_fully_used t then (False, ''This voting token has already been used'', None)
          else (True, ''Token is valid'', Some t))"

definition validate_token_constituency :: "db \<Rightarrow> string \<Rightarrow> string \<Rightarrow> bool \<times> string" where
  "validate_token_constituency d tid constituency =
     (case find_by_token_id d tid of
        None \<Rightarrow> (False, ''Invalid voting token'')
      | Some t \<Rightarrow>
          if tok_constituency t \<noteq> constituency then (False, ''Token constituency does not match'')
          else (True, ''Token constituency is valid''))"

text \<open>
  \<open>VotingToken.mark_ballot_used\<close> on the object \<open>t\<close> that was just read: the update
  changes the first stored token with this \<open>token_id\<close> that does not have the ballot
  type in \<open>ballots_used\<close> and is not fully used. The result says whether a document was
  modified.
\<close>

definition mark_ballot_used :: "datetime \<Rightarrow> db \<Rightarrow> voting_token \<Rightarrow> string \<Rightarrow> db \<times> bool" where
  "mark_ballot_used now d t bt =
     (if bt \<notin> set BALLOT_TYPES then (d, False)
      else
        let will_be_fully_used = (length (ballots_used t) + 1 \<ge> length (ballots_allowed t));
            matches = (\<lambda>s. token_id s = token_id t \<and> bt \<notin> set (ballots_used s) \<and> \<not> is_fully_used s);
            upd = (\<lambda>s. let s1 = s\<lparr>ballots_used := ballots_used s @ [bt]\<rparr>
                        in if will_be_fully_used then s1\<lparr>is_fully_used := True, used_at := Some now\<rparr>
                           else s1)
        in if list_ex matches (voting_tokens d)
           then (d\<lparr>voting_tokens := update_first matches upd (voting_tokens d)\<rparr>, True)
           else (d, False))"

text \<open>\<open>str.upper\<close> on ASCII text: a letter \<open>a\<close> to \<open>z\<close> (codes 97 to 122) loses bit 5,
  which subtracts 32.\<close>

fun upper_char :: "char \<Rightarrow> char" where
  "upper_char (Char b0 b1 b2 b3 b4 b5 b6 b7) =
     (let n = (of_char (Char b0 b1 b2 b3 b4 b5 b6 b7) :: nat)
      in if 97 \<le> n \<and> n \<le> 122 then Char b0 b1 b2 b3 b4 False b6 b7
         else Char b0 b1 b2 b3 b4 b5 b6 b7)"

definition upper :: "string \<Rightarrow> string" where
  "upper s = map upper_char s"

definition use_token_for_ballot :: "datetime \<Rightarrow> db \<Rightarrow> string \<Rightarrow> string \<Rightarrow> db \<times> bool \<times> string" where
  "use_token_for_ballot now d tid bt =
     (if bt \<notin> set BALLOT_TYPES then (d, False, ''Invalid ballot type: '' @ bt)
      else case find_by_token_id d tid of
        None \<Rightarrow> (d, False, ''Invalid voting token'')
      | Some t \<Rightarrow>
          if is_fully_used t then (d, False, ''This voting token has already been fully used'')
          else if \<not> is_valid_for_ballot t bt then
            (d, False, ''Token has already been used for '' @ upper bt @ '' ballot'')
          else
            (case mark_ballot_used now d t bt of
               (d1, success) \<Rightarrow>
                 if \<not> success then (d1, False, ''Failed to use token - it may have already been used'')
                 else (d1, True, ''Token used for '' @ upper bt @ '' ballot'')))"

section \<open>Casting ballots (app/models/vote.py, app/services/vote_service.py)\<close>

text \<open>
  The library functions the ballot code calls are fields of an environment:
  \<open>hashlib.sha256(s.encode()).hexdigest()\<close>, the two \<open>strftime\<close> formats, and
  \<open>ElectionCrypto.encrypt_vote\<close>, which draws fresh keys and may raise.
\<close>

datatype vote_data =
    FptpData string string
  | PrData string

record env =
  sha256_hex :: "string \<Rightarrow> string"
  strftime_receipt :: "datetime \<Rightarrow> string"
  strftime_display :: "datetime \<Rightarrow> string"
  encrypt_vote :: "vote_data \<Rightarrow> string \<Rightarrow> error + string"

text \<open>The values a call draws: clock readings in the order the code reads the clock,
  and the outputs of \<open>secrets.token_hex\<close>.\<close>

record draws =
  clock :: "nat \<Rightarrow> datetime"
  receipt_hex :: "nat \<Rightarrow> string"
  token_hex :: "nat \<Rightarrow> string"

fun str_of_error :: "error \<Rightarrow> string" where
  "str_of_error (ValueError m) = m"
| "str_of_error (KeyError m) = m"
| "str_of_error (OverflowError m) = m"
| "str_of_error ZeroDivisionError = ''division by zero''"
| "str_of_error (LibraryError m) = m"

definition generate_receipt :: "env \<Rightarrow> string \<Rightarrow> string \<Rightarrow> datetime \<Rightarrow> string \<times> string \<times> string" where
  "generate_receipt ev hex eid ts =
     (let rid = ''RCP-'' @ upper hex;
          ts_str = strftime_receipt ev ts;
          hash_input = rid @ '':'' @ eid @ '':'' @ ts_str
      in (rid, sha256_hex ev hash_input, ts_str))"

text \<open>Python truthiness of an optional string: \<open>None\<close> and the empty string are false.\<close>

fun truthy :: "string option \<Rightarrow> bool" where
  "truthy None = False"
| "truthy (Some s) = (s \<noteq> [])"

definition vote_insert :: "db \<Rightarrow> vote \<Rightarrow> db \<times> vote" where
  "vote_insert d v =
     (let v1 = v\<lparr>vote_oid := Some (fresh_oid (map vote_oid (votes d)))\<rparr>
      in (d\<lparr>votes := votes d @ [v1]\<rparr>, v1))"

text \<open>
  \<open>Vote.cast_fptp_vote\<close> and \<open>Vote.cast_pr_vote\<close>. \<open>k\<close> is the index of the first
  draw the call may use; the optional arguments are those of the source.
\<close>

definition new_vote ::
  "env \<Rightarrow> draws \<Rightarrow> nat \<Rightarrow> db \<Rightarrow> string \<Rightarrow> string \<Rightarrow> string \<Rightarrow> string option \<Rightarrow> string option
     \<Rightarrow> string option \<Rightarrow> string option \<Rightarrow> datetime option \<Rightarrow> string option \<Rightarrow> db \<times> vote" where
  "new_vote ev dr k d eid bt enc constituency tid rid rhash ts ts_str =
     (let ts1 = (case ts of None \<Rightarrow> clock dr k | Some t \<Rightarrow> t);
          (rid1, rhash1, ts_str1) =
             (if \<not> truthy rid
              then (case generate_receipt ev (receipt_hex dr k) eid ts1 of
                      (a, b, c) \<Rightarrow> (Some a, Some b, Some c))
              else (rid, rhash, ts_str));
          tid1 = (if truthy tid then the tid else token_hex dr k)
      in vote_insert d
           \<lparr>vote_oid = None, vote_election_id = eid, ballot_type = bt, encrypted_vote = Some enc,
            vote_constituency = constituency, vote_timestamp = ts1, vote_token_id = tid1,
            receipt_id = rid1, receipt_hash = rhash1, timestamp_str = ts_str1,
            verification_history = None, last_verified_at = None, verification_count = None\<rparr>)"

definition cast_fptp_vote ::
  "env \<Rightarrow> draws \<Rightarrow> nat \<Rightarrow> db \<Rightarrow> string \<Rightarrow> string \<Rightarrow> string \<Rightarrow> string \<Rightarrow> string option
     \<Rightarrow> string option \<Rightarrow> string option \<Rightarrow> datetime option \<Rightarrow> string option \<Rightarrow> error + (db \<times> vote)" where
  "cast_fptp_vote ev dr k d eid cid constituency pk tid rid rhash ts ts_str =
     (case encrypt_vote ev (FptpData cid constituency) pk of
        Inl e \<Rightarrow> Inl e
      | Inr enc \<Rightarrow> Inr (new_vote ev dr k d eid ''fptp'' enc (Some constituency) tid rid rhash ts ts_str))"

definition cast_pr_vote ::
  "env \<Rightarrow> draws \<Rightarrow> nat \<Rightarrow> db \<Rightarrow> string \<Rightarrow> string \<Rightarrow> string \<Rightarrow> string option
     \<Rightarrow> string option \<Rightarrow> string option \<Rightarrow> datetime option \<Rightarrow> string option \<Rightarrow> error + (db \<times> vote)" where
  "cast_pr_vote ev dr k d eid pid pk tid rid rhash ts ts_str =
     (case encrypt_vote ev (PrData pid) pk of
        Inl e \<Rightarrow> Inl e
      | Inr enc \<Rightarrow> Inr (new_vote ev dr k d eid ''pr'' enc None tid rid rhash ts ts_str))"

text \<open>
  The checks both casting functions make before their \<open>try\<close> block, in the order of the
  source; \<open>with_token\<close> adds the two token checks. The result is the message of the first
  check that fails. Clock readings 0 and 1 are those of \<open>is_ongoing\<close> and \<open>has_ended\<close>.
\<close>

definition cast_checks :: "draws \<Rightarrow> db \<Rightarrow> voter \<Rightarrow> string \<Rightarrow> string \<Rightarrow> string \<Rightarrow> string option \<Rightarrow> string option" where
  "cast_checks dr d v eid cid pid with_token =
     (case find_by_election_id d eid of
        None \<Rightarrow> Some ''Election not found''
      | Some e \<Rightarrow>
          if \<not> is_ongoing (clock dr 0) e then
            (if has_ended (clock dr 1) e then Some ''This election has ended''
             else Some ''This election has not started yet'')
          else if has_voted_in v eid then Some ''You have already voted in this election''
          else
            (case (case with_token of
                     None \<Rightarrow> None
                   | Some tid \<Rightarrow>
                       (case validate_token d tid eid of
                          (valid, msg, _) \<Rightarrow>
                            if \<not> valid then Some msg
                            else (case validate_token_constituency d tid (v_constituency v) of
                                    (valid2, msg2) \<Rightarrow> if \<not> valid2 then Some msg2 else None))) of
               Some msg \<Rightarrow> Some msg
             | None \<Rightarrow>
                 (case get_candidate e cid of
                    None \<Rightarrow> Some ''Invalid candidate selection''
                  | Some c \<Rightarrow>
                      if cand_constituency c \<noteq> Some (v_constituency v)
                      then Some ''You can only vote for candidates in your constituency''
                      else (case get_party e pid of
                              None \<Rightarrow> Some ''Invalid party selection''
                            | Some p \<Rightarrow>
                                if \<not> truthy (el_public_key e)
                                then Some ''Election encryption not configured''
                                else None))))"

text \<open>\<open>VoteService.cast_dual_ballot\<close>, the path without a token.\<close>

definition cast_dual_ballot ::
  "env \<Rightarrow> draws \<Rightarrow> db \<Rightarrow> voter \<Rightarrow> string \<Rightarrow> string \<Rightarrow> string \<Rightarrow> db \<times> voter \<times> bool \<times> string" where
  "cast_dual_ballot ev dr d v eid cid pid =
     (case cast_checks dr d v eid cid pid None of
        Some msg \<Rightarrow> (d, v, False, msg)
      | None \<Rightarrow>
          let pk = the (el_public_key (the (find_by_election_id d eid))) in
          (case cast_fptp_vote ev dr 2 d eid cid (v_constituency v) pk None None None None None of
             Inl e \<Rightarrow> (d, v, False, ''Failed to cast vote: '' @ str_of_error e)
           | Inr (d1, fv) \<Rightarrow>
               (case cast_pr_vote ev dr 3 d1 eid pid pk None None None None None of
                  Inl e \<Rightarrow> (d1, v, False, ''Failed to cast vote: '' @ str_of_error e)
                | Inr (d2, pv) \<Rightarrow>
                    (case mark_voted d2 v eid of
                       (d3, v3) \<Rightarrow> (d3, v3, True, ''Your dual ballot has been cast successfully!'')))))"

text \<open>
  \<open>VoteService.cast_dual_ballot_with_token\<close>. Clock reading 2 is the shared timestamp,
  readings 3 and 4 are those of the two token updates. The receipt information is
  \<open>None\<close> for the empty dictionary.
\<close>

definition cast_dual_ballot_with_token ::
  "env \<Rightarrow> draws \<Rightarrow> db \<Rightarrow> voter \<Rightarrow> string \<Rightarrow> string \<Rightarrow> string \<Rightarrow> string
     \<Rightarrow> db \<times> voter \<times> bool \<times> string \<times> (string \<times> string) option" where
  "cast_dual_ballot_with_token ev dr d v eid cid pid tid =
     (case cast_checks dr d v eid cid pid (Some tid) of
        Some msg \<Rightarrow> (d, v, False, msg, None)
      | None \<Rightarrow>
          let pk = the (el_public_key (the (find_by_election_id d eid)));
              timestamp = clock dr 2
          in case generate_receipt ev (receipt_hex dr 2) eid timestamp of
            (rid, rhash, ts_str) \<Rightarrow>
              (case use_token_for_ballot (clock dr 3) d tid ''fptp'' of
                 (d1, success, msg) \<Rightarrow>
                   if \<not> success then (d1, v, False, ''FPTP ballot failed: '' @ msg, None)
                   else
                     (case cast_fptp_vote ev dr 3 d1 eid cid (v_constituency v) pk (Some tid)
                             (Some rid) (Some rhash) (Some timestamp) (Some ts_str) of
                        Inl e \<Rightarrow> (d1, v, False, ''Failed to cast vote: '' @ str_of_error e, None)
                      | Inr (d2, fv) \<Rightarrow>
                          (case use_token_for_ballot (clock dr 4) d2 tid ''pr'' of
                             (d3, success2, msg2) \<Rightarrow>
                               if \<not> success2 then (d3, v, False, ''PR ballot failed: '' @ msg2, None)
                               else
                                 (case cast_pr_vote ev dr 4 d3 eid pid pk (Some tid)
                                         (Some rid) (Some rhash) (Some timestamp) (Some ts_str) of
                                    Inl e \<Rightarrow> (d3, v, False, ''Failed to cast vote: '' @ str_of_error e, None)
                                  | Inr (d4, pv) \<Rightarrow>
                                      (case mark_voted d4 v eid of
                                         (d5, v5) \<Rightarrow>
                                           (d5, v5, True, ''Your dual ballot has been cast successfully!'',
                                            Some (rid, strftime_display ev timestamp))))))))"

section \<open>Stored documents\<close>

text \<open>
  The values a stored document holds, and a document as the list of its key-value
  pairs, in the order \<open>to_dict\<close> writes them.
\<close>

datatype jvalue =
    VNull
  | VBool bool
  | VInt int
  | VStr string
  | VDate datetime
  | VOid nat
  | VList "jvalue list"
  | VDoc "(string \<times> jvalue) list"

type_synonym document = "(string \<times> jvalue) list"

fun opt_str :: "string option \<Rightarrow> jvalue" where
  "opt_str None = VNull"
| "opt_str (Some s) = VStr s"

fun opt_date :: "datetime option \<Rightarrow> jvalue" where
  "opt_date None = VNull"
| "opt_date (Some t) = VDate t"

text \<open>Every \<open>to_dict\<close> adds \<open>_id\<close> only when the object has one.\<close>

fun id_field :: "nat option \<Rightarrow> document" where
  "id_field None = []"
| "id_field (Some i) = [(''_id'', VOid i)]"





definition candidate_to_dict :: "candidate \<Rightarrow> jvalue" where
  "candidate_to_dict c =
     VDoc [(''candidate_id'', VStr (candidate_id c)), (''name'', VStr (cand_name c)),
           (''party'', VStr (cand_party c)), (''constituency'', opt_str (cand_constituency c))]"



text \<open>All keys of a value, at any depth.\<close>

fun keys_of :: "jvalue \<Rightarrow> string list" where
  "keys_of (VList xs) = concat (map keys_of xs)"
| "keys_of (VDoc kvs) = map fst kvs @ concat (map (\<lambda>kv. keys_of (snd kv)) kvs)"
| "keys_of _ = []"


section \<open>Audit log (app/models/audit_log.py)\<close>

text \<open>
  An audit entry, as the Python object and as the stored document. The fields hold
  whatever the document holds, so each is a \<open>jvalue\<close>; the timestamp is a date. The
  collection is the list of the documents that have an \<open>entry_hash\<close> key, the ones the
  queries of \<open>_get_latest_hash\<close> and \<open>verify_chain\<close> select.
\<close>

record audit_log =
  al_oid :: "nat option"
  category :: jvalue
  event_type :: jvalue
  message :: jvalue
  user_id :: jvalue
  user_type :: jvalue
  ip_address :: jvalue
  user_agent :: jvalue
  details :: jvalue
  al_timestamp :: datetime
  entry_hash :: jvalue
  previous_hash :: jvalue

text \<open>The library functions of the audit chain: \<open>json.dumps(data, sort_keys=True)\<close>,
  which raises on a value it cannot serialise, \<open>strftime('%Y-%m-%dT%H:%M:%S')\<close> and
  \<open>hashlib.sha256(s.encode()).hexdigest()\<close>.\<close>

record audit_env =
  json_dumps :: "jvalue \<Rightarrow> error + string"
  strftime_audit :: "datetime \<Rightarrow> string"
  audit_sha256 :: "string \<Rightarrow> string"

definition GENESIS_HASH :: jvalue where
  "GENESIS_HASH = VStr ''GENESIS''"

text \<open>Python truthiness of a value.\<close>

fun py_truthy :: "jvalue \<Rightarrow> bool" where
  "py_truthy VNull = False"
| "py_truthy (VBool b) = b"
| "py_truthy (VInt n) = (n \<noteq> 0)"
| "py_truthy (VStr s) = (s \<noteq> [])"
| "py_truthy (VDate t) = True"
| "py_truthy (VOid i) = True"
| "py_truthy (VList xs) = (xs \<noteq> [])"
| "py_truthy (VDoc kvs) = (kvs \<noteq> [])"

text \<open>The constructor stores \<open>details or {}\<close>; \<open>from_dict\<close> passes the stored fields to
  the constructor.\<close>

definition init_details :: "jvalue \<Rightarrow> jvalue" where
  "init_details x = (if py_truthy x then x else VDoc [])"

definition from_dict :: "audit_log \<Rightarrow> audit_log" where
  "from_dict e = e\<lparr>details := init_details (details e)\<rparr>"


text \<open>\<open>_compute_hash\<close>: the dictionary that is serialised, with the timestamp cut to
  whole seconds, and its hash.\<close>

definition hashed_data :: "audit_env \<Rightarrow> audit_log \<Rightarrow> jvalue" where
  "hashed_data ev e =
     (let normalized_ts = strftime_audit ev (al_timestamp e - al_timestamp e mod 1000000)
      in VDoc [(''category'', category e), (''event_type'', event_type e),
               (''message'', message e), (''user_id'', user_id e),
               (''user_type'', user_type e), (''ip_address'', ip_address e),
               (''user_agent'', user_agent e), (''details'', details e),
               (''timestamp'', VStr normalized_ts), (''previous_hash'', previous_hash e)])"

definition compute_hash :: "audit_env \<Rightarrow> audit_log \<Rightarrow> error + string" where
  "compute_hash ev e =
     (case json_dumps ev (hashed_data ev e) of
        Inl err \<Rightarrow> Inl err
      | Inr s \<Rightarrow> Inr (audit_sha256 ev s))"

text \<open>
  The two queries sort by timestamp. Ascending order is the stable sort of the
  collection; the first document in descending order is taken to be the last one in
  ascending order. MongoDB leaves the order of documents with equal timestamps open.
\<close>

definition get_latest_hash :: "audit_log list \<Rightarrow> jvalue" where
  "get_latest_hash log =
     (case rev (sort_key al_timestamp log) of
        [] \<Rightarrow> GENESIS_HASH
      | latest # _ \<Rightarrow> if py_truthy (entry_hash latest) then entry_hash latest else GENESIS_HASH)"

text \<open>A stored date has millisecond precision: \<open>insert_one\<close> drops the microseconds below
  a millisecond.\<close>

definition bson_date :: "datetime \<Rightarrow> datetime" where
  "bson_date t = t - t mod 1000"

definition audit_save :: "audit_env \<Rightarrow> audit_log list \<Rightarrow> audit_log \<Rightarrow> error + (audit_log list \<times> audit_log)" where
  "audit_save ev log e =
     (let e1 = (if previous_hash e = VNull then e\<lparr>previous_hash := get_latest_hash log\<rparr> else e)
      in case compute_hash ev e1 of
           Inl err \<Rightarrow> Inl err
         | Inr h \<Rightarrow>
             let e2 = e1\<lparr>entry_hash := VStr h\<rparr>;
                 i = fresh_oid (map al_oid log)
             in Inr (log @ [e2\<lparr>al_oid := Some i, al_timestamp := bson_date (al_timestamp e2)\<rparr>],
                     e2\<lparr>al_oid := Some i\<rparr>))"


text \<open>Appending a list of entries, one \<open>save\<close> after the other.\<close>

fun append_all :: "audit_env \<Rightarrow> audit_log list \<Rightarrow> audit_log list \<Rightarrow> error + audit_log list" where
  "append_all ev log [] = Inr log"
| "append_all ev log (e # es) =
     (case audit_save ev log e of
        Inl err \<Rightarrow> Inl err
      | Inr (log1, _) \<Rightarrow> append_all ev log1 es)"

record verify_result =
  valid :: bool
  entries_checked :: nat
  first_invalid_id :: "nat option"
  vr_error :: "(string \<times> nat option \<times> string) option"

text \<open>The loop of \<open>verify_chain\<close>. The error message is kept as the text before the
  \<open>_id\<close>, the \<open>_id\<close>, and the text after it.\<close>

fun verify_loop :: "audit_env \<Rightarrow> audit_log list \<Rightarrow> nat \<Rightarrow> jvalue \<Rightarrow> error + verify_result" where
  "verify_loop ev [] n expected_previous_hash =
     Inr \<lparr>valid = True, entries_checked = n, first_invalid_id = None, vr_error = None\<rparr>"
| "verify_loop ev (entry # entries) n expected_previous_hash =
     (let n1 = n + 1 in
      if previous_hash entry \<noteq> expected_previous_hash
      then Inr \<lparr>valid = False, entries_checked = n1, first_invalid_id = al_oid entry,
                vr_error = Some (''Chain break: previous_hash mismatch at entry '', al_oid entry, [])\<rparr>
      else case compute_hash ev (from_dict entry) of
             Inl err \<Rightarrow> Inl err
           | Inr computed_hash \<Rightarrow>
               if VStr computed_hash \<noteq> entry_hash entry
               then Inr \<lparr>valid = False, entries_checked = n1, first_invalid_id = al_oid entry,
                         vr_error = Some (''Hash mismatch: entry '', al_oid entry,
                                          '' was tampered with'')\<rparr>
               else verify_loop ev entries n1 (entry_hash entry))"

definition verify_chain :: "audit_env \<Rightarrow> nat option \<Rightarrow> audit_log list \<Rightarrow> error + verify_result" where
  "verify_chain ev limit log =
     (let cursor = sort_key al_timestamp log;
          entries = (case limit of
                       None \<Rightarrow> cursor
                     | Some l \<Rightarrow> if l \<noteq> 0 then take l cursor else cursor)
      in verify_loop ev entries 0 GENESIS_HASH)"



section \<open>Receipt verification (Vote.verify_receipt)\<close>

definition find_by_receipt_id :: "db \<Rightarrow> string \<Rightarrow> vote list" where
  "find_by_receipt_id d rid = filter (\<lambda>v. receipt_id v = Some rid) (votes d)"

record receipt_details =
  rd_election_id :: string
  rd_election_name :: string
  rd_fptp :: bool
  rd_pr :: bool
  rd_ballot_count :: nat
  rd_timestamp :: string
  rd_verification_count :: int
  rd_verification_history :: "(datetime \<times> string) list"
  rd_current_verification :: string

record receipt_result =
  rr_valid :: bool
  rr_message :: string
  rr_details :: "receipt_details option"

text \<open>The update of \<open>verify_receipt\<close> on one stored vote: \<open>$push\<close> to
  \<open>verification_history\<close>, \<open>$set\<close> of \<open>last_verified_at\<close>, \<open>$inc\<close> of
  \<open>verification_count\<close>; a missing field starts as the empty list, or as 0.\<close>

definition log_verification_update :: "env \<Rightarrow> datetime \<Rightarrow> vote \<Rightarrow> vote" where
  "log_verification_update ev now v =
     v\<lparr>verification_history :=
          Some ((case verification_history v of None \<Rightarrow> [] | Some h \<Rightarrow> h)
                @ [(now, strftime_display ev now)]),
       last_verified_at := Some now,
       verification_count :=
          Some ((case verification_count v of None \<Rightarrow> 0 | Some n \<Rightarrow> n) + 1)\<rparr>"

text \<open>The string that is hashed for the first matching vote: its stored
  \<open>timestamp_str\<close> when that is not empty, the formatted timestamp otherwise.\<close>

definition receipt_hash_input :: "env \<Rightarrow> vote \<Rightarrow> string" where
  "receipt_hash_input ev primary_vote =
     (case receipt_id primary_vote of None \<Rightarrow> ''None'' | Some r \<Rightarrow> r) @ '':''
     @ vote_election_id primary_vote @ '':''
     @ (if truthy (timestamp_str primary_vote) then the (timestamp_str primary_vote)
        else strftime_receipt ev (vote_timestamp primary_vote))"

text \<open>\<open>updated_vote\<close> is the first matching vote, read again after the update; the update
  keeps every \<open>receipt_id\<close>, so there is one.\<close>

definition verify_receipt :: "env \<Rightarrow> datetime \<Rightarrow> db \<Rightarrow> string \<Rightarrow> bool \<Rightarrow> db \<times> receipt_result" where
  "verify_receipt ev now d rid log_verification =
     (case find_by_receipt_id d rid of
        [] \<Rightarrow> (d, \<lparr>rr_valid = False,
                    rr_message = ''Receipt not found. Please check your receipt ID.'',
                    rr_details = None\<rparr>)
      | primary_vote # rest \<Rightarrow>
          let expected_hash = sha256_hex ev (receipt_hash_input ev primary_vote) in
          if Some expected_hash \<noteq> receipt_hash primary_vote
          then (d, \<lparr>rr_valid = False, rr_message = ''Receipt integrity check failed.'',
                    rr_details = None\<rparr>)
          else
            let ballot_types = map (\<lambda>v. upper (ballot_type v)) (primary_vote # rest);
                d1 = (if log_verification
                      then d\<lparr>votes := map (\<lambda>v. if receipt_id v = Some rid
                                                   then log_verification_update ev now v else v)
                                            (votes d)\<rparr>
                      else d);
                updated_vote = (case find_by_receipt_id d1 rid of
                                  u # _ \<Rightarrow> u
                                | [] \<Rightarrow> primary_vote);
                election_name = (case find_by_election_id d1 (vote_election_id primary_vote) of
                                   None \<Rightarrow> vote_election_id primary_vote
                                 | Some e \<Rightarrow> el_name e);
                history = (case verification_history updated_vote of None \<Rightarrow> [] | Some h \<Rightarrow> h)
            in (d1, \<lparr>rr_valid = True, rr_message = ''Your votes were successfully recorded.'',
                     rr_details = Some
                       \<lparr>rd_election_id = vote_election_id primary_vote,
                        rd_election_name = election_name,
                        rd_fptp = (''FPTP'' \<in> set ballot_types),
                        rd_pr = (''PR'' \<in> set ballot_types),
                        rd_ballot_count = length (primary_vote # rest),
                        rd_timestamp = strftime_display ev (vote_timestamp primary_vote),
                        rd_verification_count =
                          (case verification_count updated_vote of None \<Rightarrow> 1 | Some n \<Rightarrow> n),
                        rd_verification_history = drop (length history - 5) history,
                        rd_current_verification = strftime_display ev now\<rparr>\<rparr>))"

section \<open>Example data\<close>

text \<open>A small election with one voter and one issued token, used to run the model.\<close>

definition demo_election :: election where
  "demo_election = \<lparr>el_election_id = ''E1'', el_name = ''Demo'', el_description = [],
     el_candidates = [\<lparr>candidate_id = ''C1'', cand_name = ''A'', cand_party = ''P'',
                       cand_constituency = Some ''Kathmandu''\<rparr>],
     el_parties = [\<lparr>party_id = ''P1'', party_name = ''P'', party_symbol = None\<rparr>],
     el_total_pr_seats = 110, el_start_date = 100, el_end_date = 200, el_is_active = True,
     el_public_key = Some ''pk'', el_encrypted_key_bundle = Some ''bundle''\<rparr>"

definition demo_voter :: voter where
  "demo_voter = \<lparr>v_oid = Some 1, voter_id = ''VTR-00000001'', citizenship_number_hash = ''h'',
     password_hash = ''p'', full_name = ''V'', v_constituency = ''Kathmandu'', registered_at = 50,
     elections_voted = [], token_issued_for = []\<rparr>"

definition demo_token :: voting_token where
  "demo_token = \<lparr>tok_oid = Some 1, token_id = ''T1'', tok_election_id = ''E1'',
     tok_constituency = ''Kathmandu'', ballots_allowed = [''fptp'', ''pr''], ballots_used = [],
     is_fully_used = False, created_at = 120, used_at = None\<rparr>"

definition demo_env :: env where
  "demo_env = \<lparr>sha256_hex = (\<lambda>s. s), strftime_receipt = (\<lambda>t. ''ts''),
     strftime_display = (\<lambda>t. ''ts''), encrypt_vote = (\<lambda>vd pk. Inr ''ct'')\<rparr>"

definition demo_draws :: draws where
  "demo_draws = \<lparr>clock = (\<lambda>k. 150), receipt_hex = (\<lambda>k. ''ab''), token_hex = (\<lambda>k. ''ff'')\<rparr>"

definition demo_db :: db where
  "demo_db = \<lparr>elections = [demo_election], voters = [demo_voter],
               voting_tokens = [demo_token], votes = []\<rparr>"

text \<open>The same database with the election deactivated inside its date window.\<close>

definition inactive_db :: db where
  "inactive_db = demo_db\<lparr>elections := [demo_election\<lparr>el_is_active := False\<rparr>]\<rparr>"

text \<open>The same database with a token whose PR ballot is already used.\<close>

definition partial_db :: db where
  "partial_db = demo_db\<lparr>voting_tokens := [demo_token\<lparr>ballots_used := [''pr'']\<rparr>]\<rparr>"

text \<open>The FPTP ballot that the example call stores, and \<open>partial_db\<close> after the FPTP slot
  of the token is consumed and after the ballot is stored.\<close>

definition demo_fptp_vote :: vote where
  "demo_fptp_vote = \<lparr>vote_oid = Some 1, vote_election_id = ''E1'', ballot_type = ''fptp'',
     encrypted_vote = Some ''ct'', vote_constituency = Some ''Kathmandu'',
     vote_timestamp = 150, vote_token_id = ''T1'', receipt_id = Some ''RCP-AB'',
     receipt_hash = Some ''RCP-AB:E1:ts'', timestamp_str = Some ''ts'',
     verification_history = None, last_verified_at = None, verification_count = None\<rparr>"

definition partial_db_used :: db where
  "partial_db_used = partial_db\<lparr>voting_tokens :=
     [demo_token\<lparr>ballots_used := [''pr'', ''fptp''], is_fully_used := True, used_at := Some 150\<rparr>]\<rparr>"

definition partial_db_stored :: db where
  "partial_db_stored = partial_db_used\<lparr>votes := [demo_fptp_vote]\<rparr>"

text \<open>The same database before any token was issued.\<close>

definition fresh_db :: db where
  "fresh_db = demo_db\<lparr>voting_tokens := []\<rparr>"

section \<open>The inclusion of the elections voted in among those with a token issued\<close>


text \<open>The voter after a token was issued for the election, and the database holding
  that voter and the token.\<close>

definition issued_voter :: voter where
  "issued_voter = demo_voter\<lparr>token_issued_for := [''E1'']\<rparr>"

definition issued_db :: db where
  "issued_db = demo_db\<lparr>voters := [issued_voter]\<rparr>"

text \<open>The database after that voter has cast a dual ballot with the token.\<close>

definition cast_db :: db where
  "cast_db = fst (cast_dual_ballot_with_token demo_env demo_draws issued_db issued_voter
                    ''E1'' ''C1'' ''P1'' ''T1'')"

text \<open>\<open>cast_db\<close> with the election id of the second ballot of the receipt changed.\<close>

definition tampered_second_db :: db where
  "tampered_second_db =
     cast_db\<lparr>votes := [votes cast_db ! 0, (votes cast_db ! 1)\<lparr>vote_election_id := ''E2''\<rparr>]\<rparr>"

text \<open>\<open>cast_db\<close> with the receipt id of the first ballot changed, and with the stored
  timestamp string of the first ballot emptied.\<close>

definition tampered_receipt_id_db :: db where
  "tampered_receipt_id_db =
     cast_db\<lparr>votes := [(votes cast_db ! 0)\<lparr>receipt_id := Some ''RCP-CD''\<rparr>, votes cast_db ! 1]\<rparr>"

definition tampered_empty_ts_db :: db where
  "tampered_empty_ts_db =
     cast_db\<lparr>votes := [(votes cast_db ! 0)\<lparr>timestamp_str := Some []\<rparr>, votes cast_db ! 1]\<rparr>"

text \<open>\<open>cast_db\<close> with the election id of the first ballot changed.\<close>

definition tampered_first_db :: db where
  "tampered_first_db =
     cast_db\<lparr>votes := update_first (\<lambda>v. receipt_id v = Some ''RCP-AB'')
                         (\<lambda>v. v\<lparr>vote_election_id := ''E2''\<rparr>) (votes cast_db)\<rparr>"

section \<open>Elector anonymity of the stored documents\<close>



section \<open>Deactivated elections\<close>

lemma cast_checks_inactive:
  assumes "find_by_election_id d eid = Some e" and "\<not> el_is_active e"
  shows "cast_checks dr d v eid cid pid wt =
           Some (if has_ended (clock dr 1) e then ''This election has ended''
                 else ''This election has not started yet'')"
  using assms by (simp add: cast_checks_def is_ongoing_def)

text \<open>
  C10. An election has an \<open>is_active\<close> flag next to its date window. When the flag is
  false, \<open>issue_token\<close> and \<open>cast_dual_ballot_with_token\<close> fail and leave the database
  and the voter as they were, so no token and no ballot record is created, whatever the
  clock says (also inside the date window). The message is that the election has ended
  (clock after the end date) or has not started yet (otherwise); deactivation is never
  mentioned.
\<close>

theorem inactive_election_rejected:
  assumes "find_by_election_id d eid = Some e" and "\<not> el_is_active e"
  shows "issue_token now1 now2 now3 ids d v eid =
           Some (d, v, False,
                 (if has_ended now2 e then ''This election has ended''
                  else ''This election has not started yet''), None)
       \<and> cast_dual_ballot_with_token ev dr d v eid cid pid tid =
           (d, v, False,
            (if has_ended (clock dr 1) e then ''This election has ended''
             else ''This election has not started yet''), None)"
  using assms
  by (simp add: issue_token_def cast_dual_ballot_with_token_def cast_checks_inactive is_ongoing_def)

theorem inactive_election_rejected_witness:
  "find_by_election_id inactive_db ''E1'' = Some (demo_election\<lparr>el_is_active := False\<rparr>)
   \<and> \<not> el_is_active (demo_election\<lparr>el_is_active := False\<rparr>)
   \<and> el_start_date (demo_election\<lparr>el_is_active := False\<rparr>) \<le> 150
   \<and> 150 \<le> el_end_date (demo_election\<lparr>el_is_active := False\<rparr>)
   \<and> issue_token 150 150 150 [''T2''] inactive_db demo_voter ''E1'' =
        Some (inactive_db, demo_voter, False, ''This election has not started yet'', None)
   \<and> cast_dual_ballot_with_token demo_env demo_draws inactive_db demo_voter ''E1'' ''C1'' ''P1'' ''T1'' =
        (inactive_db, demo_voter, False, ''This election has not started yet'', None)"
proof -
  have f: "find_by_election_id inactive_db ''E1'' = Some (demo_election\<lparr>el_is_active := False\<rparr>)"
    by (simp add: find_by_election_id_def inactive_db_def demo_db_def demo_election_def)
  have a: "\<not> el_is_active (demo_election\<lparr>el_is_active := False\<rparr>)" by simp
  have e: "\<not> has_ended 150 (demo_election\<lparr>el_is_active := False\<rparr>)"
    by (simp add: has_ended_def demo_election_def)
  have c: "clock demo_draws 1 = 150" by (simp add: demo_draws_def)
  show ?thesis
    using inactive_election_rejected [OF f a, of 150 150 150 "[''T2'']" demo_voter demo_env
        demo_draws "''C1''" "''P1''" "''T1''"] f e c
    by (simp add: demo_election_def)
qed

section \<open>Effects of the ballot operations on the collections\<close>

lemma use_token_voters_votes:
  "use_token_for_ballot now d tid bt = (d1, ok, m) \<Longrightarrow>
     voters d1 = voters d \<and> votes d1 = votes d \<and> elections d1 = elections d"
  by (auto simp: use_token_for_ballot_def mark_ballot_used_def Let_def
      split: if_splits option.splits prod.splits)

lemma new_vote_effect:
  "new_vote ev dr k d eid bt enc c tid rid rh ts tss = (d1, nv) \<Longrightarrow>
     voters d1 = voters d \<and> votes d1 = votes d @ [nv] \<and> ballot_type nv = bt
     \<and> elections d1 = elections d \<and> voting_tokens d1 = voting_tokens d"
  by (auto simp: new_vote_def vote_insert_def Let_def split: prod.splits if_splits)

lemma cast_fptp_effect:
  "cast_fptp_vote ev dr k d eid cid c pk tid rid rh ts tss = Inr (d1, nv) \<Longrightarrow>
     voters d1 = voters d \<and> votes d1 = votes d @ [nv] \<and> ballot_type nv = ''fptp''"
  by (auto simp: cast_fptp_vote_def split: sum.splits dest: new_vote_effect)

lemma cast_pr_effect:
  "cast_pr_vote ev dr k d eid pid pk tid rid rh ts tss = Inr (d1, nv) \<Longrightarrow>
     voters d1 = voters d \<and> votes d1 = votes d @ [nv] \<and> ballot_type nv = ''pr''"
  by (auto simp: cast_pr_vote_def split: sum.splits dest: new_vote_effect)

lemma mark_voted_effect:
  "mark_voted d v eid = (d1, v1) \<Longrightarrow> eid \<in> set (elections_voted v1) \<and> votes d1 = votes d"
  by (auto simp: mark_voted_def split: if_splits)


lemma cast_with_token_success:
  assumes "cast_dual_ballot_with_token ev dr d v eid cid pid tid = (d', v', True, msg, r)"
  shows "eid \<in> set (elections_voted v') \<and>
         (\<exists>fv pv. votes d' = votes d @ [fv, pv] \<and> ballot_type fv = ''fptp'' \<and> ballot_type pv = ''pr'')"
  using assms
  apply (simp add: cast_dual_ballot_with_token_def Let_def
      split: option.splits prod.splits if_splits sum.splits)
  apply (auto dest!: use_token_voters_votes cast_fptp_effect cast_pr_effect mark_voted_effect)
  done

lemma cast_with_token_failure:
  assumes "cast_dual_ballot_with_token ev dr d v eid cid pid tid = (d', v', False, msg, r)"
  shows "v' = v \<and> voters d' = voters d"
  using assms
  apply (simp add: cast_dual_ballot_with_token_def Let_def
      split: option.splits prod.splits if_splits sum.splits)
  apply (auto dest!: use_token_voters_votes cast_fptp_effect cast_pr_effect)
  done



lemmas demo_defs = demo_election_def demo_voter_def demo_token_def demo_env_def demo_draws_def
  demo_db_def partial_db_def fresh_db_def demo_fptp_vote_def partial_db_used_def
  partial_db_stored_def issued_voter_def issued_db_def

lemmas service_defs = cast_dual_ballot_with_token_def cast_dual_ballot_def cast_checks_def
  find_by_election_id_def find_by_token_id_def is_ongoing_def has_ended_def has_voted_in_def
  validate_token_def validate_token_constituency_def generate_receipt_def
  use_token_for_ballot_def mark_ballot_used_def is_valid_for_ballot_def BALLOT_TYPES_def
  cast_fptp_vote_def cast_pr_vote_def new_vote_def vote_insert_def fresh_oid_def mark_voted_def
  upper_def Let_def

section \<open>The partial-cast policy\<close>

text \<open>
  The claim C4 as the specification states it fails on the code. In \<open>partial_db\<close> the
  token has its PR ballot used already: the FPTP ballot is consumed and stored, the PR
  consumption fails, the call reports \<open>PR ballot failed\<close>, and the voter is returned
  unchanged, not marked as having voted.
\<close>

theorem partial_cast_marks_voted_counterexample:
  "use_token_for_ballot 150 partial_db ''T1'' ''fptp'' =
     (partial_db_used, True, ''Token used for FPTP ballot'')
   \<and> votes partial_db = [] \<and> votes partial_db_stored = [demo_fptp_vote]
   \<and> use_token_for_ballot 150 partial_db_stored ''T1'' ''pr'' =
     (partial_db_stored, False, ''This voting token has already been fully used'')
   \<and> cast_dual_ballot_with_token demo_env demo_draws partial_db demo_voter ''E1'' ''C1'' ''P1'' ''T1'' =
     (partial_db_stored, demo_voter, False,
      ''PR ballot failed: This voting token has already been fully used'', None)
   \<and> ''E1'' \<notin> set (elections_voted demo_voter)
   \<and> voters partial_db_stored = [demo_voter]"
  by (simp add: demo_defs service_defs)

text \<open>
  C4, amended. When all checks pass, the FPTP slot is consumed and the FPTP ballot is
  stored, and the PR consumption then fails, \<open>cast_dual_ballot_with_token\<close> returns
  failure with the message \<open>PR ballot failed: \<close> followed by the token service's message;
  the FPTP ballot stays stored, and the elector is not marked as voted: the voter object
  and the stored voter documents are unchanged. In general a failed call never changes
  the voter or the voters collection, and a successful call has appended an FPTP and a
  PR ballot and returns a voter marked as having voted in the election.
\<close>

theorem partial_cast_policy:
  "(cast_checks dr d v eid cid pid (Some tid) = None
      \<and> generate_receipt ev (receipt_hex dr 2) eid (clock dr 2) = (rid, rhash, ts_str)
      \<and> use_token_for_ballot (clock dr 3) d tid ''fptp'' = (d1, True, m1)
      \<and> cast_fptp_vote ev dr 3 d1 eid cid (v_constituency v)
             (the (el_public_key (the (find_by_election_id d eid)))) (Some tid)
             (Some rid) (Some rhash) (Some (clock dr 2)) (Some ts_str) = Inr (d2, fv)
      \<and> use_token_for_ballot (clock dr 4) d2 tid ''pr'' = (d3, False, m2)
    \<longrightarrow> cast_dual_ballot_with_token ev dr d v eid cid pid tid =
           (d3, v, False, ''PR ballot failed: '' @ m2, None)
         \<and> eid \<notin> set (elections_voted v)
         \<and> voters d3 = voters d
         \<and> votes d3 = votes d @ [fv])
   \<and> (cast_dual_ballot_with_token ev dr d v eid cid pid tid = (d', v', False, msg, r)
        \<longrightarrow> v' = v \<and> voters d' = voters d)
   \<and> (cast_dual_ballot_with_token ev dr d v eid cid pid tid = (d', v', True, msg, r)
        \<longrightarrow> eid \<in> set (elections_voted v') \<and>
            (\<exists>fv pv. votes d' = votes d @ [fv, pv] \<and> ballot_type fv = ''fptp''
                      \<and> ballot_type pv = ''pr''))"
proof (intro conjI impI)
  assume a: "cast_checks dr d v eid cid pid (Some tid) = None
      \<and> generate_receipt ev (receipt_hex dr 2) eid (clock dr 2) = (rid, rhash, ts_str)
      \<and> use_token_for_ballot (clock dr 3) d tid ''fptp'' = (d1, True, m1)
      \<and> cast_fptp_vote ev dr 3 d1 eid cid (v_constituency v)
             (the (el_public_key (the (find_by_election_id d eid)))) (Some tid)
             (Some rid) (Some rhash) (Some (clock dr 2)) (Some ts_str) = Inr (d2, fv)
      \<and> use_token_for_ballot (clock dr 4) d2 tid ''pr'' = (d3, False, m2)"
  show "cast_dual_ballot_with_token ev dr d v eid cid pid tid =
           (d3, v, False, ''PR ballot failed: '' @ m2, None)"
    using a by (simp add: cast_dual_ballot_with_token_def Let_def)
  show "eid \<notin> set (elections_voted v)"
    using a by (auto simp: cast_checks_def has_voted_in_def split: option.splits if_splits)
  have v1: "voters d1 = voters d" "votes d1 = votes d"
    using a use_token_voters_votes [of "clock dr 3" d tid "''fptp''" d1 True m1] by simp_all
  have v2: "voters d2 = voters d1" "votes d2 = votes d1 @ [fv]"
    using a cast_fptp_effect by blast+
  have v3: "voters d3 = voters d2" "votes d3 = votes d2"
    using a use_token_voters_votes [of "clock dr 4" d2 tid "''pr''" d3 False m2] by simp_all
  show "voters d3 = voters d" using v1 v2 v3 by simp
  show "votes d3 = votes d @ [fv]" using v1 v2 v3 by simp
next
  assume "cast_dual_ballot_with_token ev dr d v eid cid pid tid = (d', v', False, msg, r)"
  then show "v' = v" "voters d' = voters d" using cast_with_token_failure by blast+
next
  assume s: "cast_dual_ballot_with_token ev dr d v eid cid pid tid = (d', v', True, msg, r)"
  show "eid \<in> set (elections_voted v')" using cast_with_token_success [OF s] by simp
  show "\<exists>fv pv. votes d' = votes d @ [fv, pv] \<and> ballot_type fv = ''fptp'' \<and> ballot_type pv = ''pr''"
    using cast_with_token_success [OF s] by simp
qed

theorem partial_cast_policy_witness:
  "cast_checks demo_draws partial_db demo_voter ''E1'' ''C1'' ''P1'' (Some ''T1'') = None
   \<and> use_token_for_ballot (clock demo_draws 3) partial_db ''T1'' ''fptp'' =
        (partial_db_used, True, ''Token used for FPTP ballot'')
   \<and> use_token_for_ballot (clock demo_draws 4) partial_db_stored ''T1'' ''pr'' =
        (partial_db_stored, False, ''This voting token has already been fully used'')
   \<and> cast_dual_ballot_with_token demo_env demo_draws partial_db demo_voter ''E1'' ''C1'' ''P1'' ''T1'' =
        (partial_db_stored, demo_voter, False,
         ''PR ballot failed: This voting token has already been fully used'', None)
   \<and> ''E1'' \<notin> set (elections_voted demo_voter)
   \<and> voters partial_db_stored = voters partial_db
   \<and> votes partial_db_stored = votes partial_db @ [demo_fptp_vote]"
proof -
  have h: "cast_checks demo_draws partial_db demo_voter ''E1'' ''C1'' ''P1'' (Some ''T1'') = None
      \<and> generate_receipt demo_env (receipt_hex demo_draws 2) ''E1'' (clock demo_draws 2) =
          (''RCP-AB'', ''RCP-AB:E1:ts'', ''ts'')
      \<and> use_token_for_ballot (clock demo_draws 3) partial_db ''T1'' ''fptp'' =
          (partial_db_used, True, ''Token used for FPTP ballot'')
      \<and> cast_fptp_vote demo_env demo_draws 3 partial_db_used ''E1'' ''C1'' (v_constituency demo_voter)
             (the (el_public_key (the (find_by_election_id partial_db ''E1'')))) (Some ''T1'')
             (Some ''RCP-AB'') (Some ''RCP-AB:E1:ts'') (Some (clock demo_draws 2)) (Some ''ts'') =
          Inr (partial_db_stored, demo_fptp_vote)
      \<and> use_token_for_ballot (clock demo_draws 4) partial_db_stored ''T1'' ''pr'' =
          (partial_db_stored, False, ''This voting token has already been fully used'')"
    by (simp add: demo_defs service_defs)
  show ?thesis
    using h partial_cast_policy [where dr = demo_draws and d = partial_db and v = demo_voter
        and eid = "''E1''" and cid = "''C1''" and pid = "''P1''" and tid = "''T1''"
        and ev = demo_env and rid = "''RCP-AB''" and rhash = "''RCP-AB:E1:ts''"
        and ts_str = "''ts''" and ?d1.0 = partial_db_used and ?m1.0 = "''Token used for FPTP ballot''"
        and ?d2.0 = partial_db_stored and fv = demo_fptp_vote and ?d3.0 = partial_db_stored
        and ?m2.0 = "''This voting token has already been fully used''"]
    by simp
qed

section \<open>Elections voted in and elections with a token issued\<close>









section \<open>Elector anonymity\<close>

lemma keys_of_strs [simp]: "concat (map keys_of (map VStr xs)) = []"
  by (induction xs) auto

lemma keys_of_opt_str [simp]: "keys_of (opt_str x) = []"
  by (cases x) auto

lemma keys_of_opt_date [simp]: "keys_of (opt_date x) = []"
  by (cases x) auto

lemma keys_of_id_field [simp]:
  "map fst (id_field i) = (case i of None \<Rightarrow> [] | Some _ \<Rightarrow> [''_id''])"
  "concat (map (\<lambda>kv. keys_of (snd kv)) (id_field i)) = []"
  by (cases i; simp)+




lemma keys_of_history_entry [simp]:
  "keys_of (case x of (t, s) \<Rightarrow> VDoc [(''verified_at'', VDate t), (''verified_at_formatted'', VStr s)])
     = [''verified_at'', ''verified_at_formatted'']"
  by (cases x) simp

lemma keys_of_history [simp]:
  "concat (map (keys_of \<circ> (\<lambda>(t, s). VDoc [(''verified_at'', VDate t), (''verified_at_formatted'', VStr s)])) h)
     = concat (map (\<lambda>_. [''verified_at'', ''verified_at_formatted'']) h)"
  by (induction h) auto


lemma keys_of_candidate [simp]:
  "keys_of (candidate_to_dict c) = [''candidate_id'', ''name'', ''party'', ''constituency'']"
  by (simp add: candidate_to_dict_def)












section \<open>Receipt integrity\<close>

lemma new_vote_given:
  assumes "new_vote ev dr k d eid bt enc c (Some tid) (Some rid) (Some rh) (Some ts) (Some tss) = (d1, nv)"
    and "rid \<noteq> []"
  shows "votes d1 = votes d @ [nv] \<and> receipt_id nv = Some rid \<and> receipt_hash nv = Some rh
         \<and> timestamp_str nv = Some tss \<and> vote_timestamp nv = ts \<and> vote_election_id nv = eid
         \<and> ballot_type nv = bt"
  using assms by (auto simp: new_vote_def vote_insert_def Let_def)

lemma cast_fptp_given:
  assumes "cast_fptp_vote ev dr k d eid cid c pk (Some tid) (Some rid) (Some rh) (Some ts) (Some tss) = Inr (d1, nv)"
    and "rid \<noteq> []"
  shows "votes d1 = votes d @ [nv] \<and> receipt_id nv = Some rid \<and> receipt_hash nv = Some rh
         \<and> timestamp_str nv = Some tss \<and> vote_timestamp nv = ts \<and> vote_election_id nv = eid
         \<and> ballot_type nv = ''fptp''"
  using assms new_vote_given
  by (fastforce simp: cast_fptp_vote_def split: sum.splits)

lemma cast_pr_given:
  assumes "cast_pr_vote ev dr k d eid pid pk (Some tid) (Some rid) (Some rh) (Some ts) (Some tss) = Inr (d1, nv)"
    and "rid \<noteq> []"
  shows "votes d1 = votes d @ [nv] \<and> receipt_id nv = Some rid \<and> receipt_hash nv = Some rh
         \<and> timestamp_str nv = Some tss \<and> vote_timestamp nv = ts \<and> vote_election_id nv = eid
         \<and> ballot_type nv = ''pr''"
  using assms new_vote_given
  by (fastforce simp: cast_pr_vote_def split: sum.splits)

lemma generate_receipt_nonempty:
  "generate_receipt ev hex eid ts = (rid, rh, tss) \<Longrightarrow>
     rid \<noteq> [] \<and> tss = strftime_receipt ev ts \<and> rh = sha256_hex ev (rid @ '':'' @ eid @ '':'' @ tss)"
  by (auto simp: generate_receipt_def Let_def)

lemma cast_with_token_receipt:
  assumes "cast_dual_ballot_with_token ev dr d v eid cid pid tid = (d', v', True, msg, r)"
  shows "\<exists>rid rh tss fv pv shown.
           r = Some (rid, shown)
         \<and> generate_receipt ev (receipt_hex dr 2) eid (clock dr 2) = (rid, rh, tss)
         \<and> votes d' = votes d @ [fv, pv]
         \<and> receipt_id fv = Some rid \<and> receipt_hash fv = Some rh \<and> timestamp_str fv = Some tss
         \<and> vote_timestamp fv = clock dr 2 \<and> vote_election_id fv = eid \<and> ballot_type fv = ''fptp''
         \<and> receipt_id pv = Some rid \<and> receipt_hash pv = Some rh \<and> timestamp_str pv = Some tss
         \<and> vote_timestamp pv = clock dr 2 \<and> vote_election_id pv = eid \<and> ballot_type pv = ''pr''"
proof -
  obtain rid rh tss where g: "generate_receipt ev (receipt_hex dr 2) eid (clock dr 2) = (rid, rh, tss)"
    by (metis prod_cases3)
  have ne: "rid \<noteq> []" using generate_receipt_nonempty [OF g] by simp
  from assms g obtain d1 m1 d2 fv d3 m2 d4 pv pk where
    u1: "use_token_for_ballot (clock dr 3) d tid ''fptp'' = (d1, True, m1)" and
    c1: "cast_fptp_vote ev dr 3 d1 eid cid (v_constituency v) pk (Some tid) (Some rid) (Some rh) (Some (clock dr 2)) (Some tss) = Inr (d2, fv)" and
    u2: "use_token_for_ballot (clock dr 4) d2 tid ''pr'' = (d3, True, m2)" and
    c2: "cast_pr_vote ev dr 4 d3 eid pid pk (Some tid) (Some rid) (Some rh) (Some (clock dr 2)) (Some tss) = Inr (d4, pv)" and
    mv: "mark_voted d4 v eid = (d', v')" and
    rr: "r = Some (rid, strftime_display ev (clock dr 2))"
    by (auto simp: cast_dual_ballot_with_token_def Let_def split: option.splits prod.splits if_splits sum.splits)
  have v1: "votes d1 = votes d" using use_token_voters_votes [OF u1] by simp
  have v3: "votes d3 = votes d2" using use_token_voters_votes [OF u2] by simp
  have v5: "votes d' = votes d4" using mark_voted_effect [OF mv] by simp
  note f = cast_fptp_given [OF c1 ne]
  note p = cast_pr_given [OF c2 ne]
  have "votes d' = votes d @ [fv, pv]" using v1 v3 v5 f p by simp
  then show ?thesis using rr g f p by blast
qed

lemma upper_ballot_types [simp]: "upper ''fptp'' = ''FPTP''" "upper ''pr'' = ''PR''"
  by (simp_all add: upper_def)

lemma receipt_valid_after_cast:
  assumes c: "cast_dual_ballot_with_token ev dr d v eid cid pid tid = (d', v', True, msg, Some (rid, shown))"
    and fresh: "\<forall>x \<in> set (votes d). receipt_id x \<noteq> Some rid"
  shows "rr_valid (snd (verify_receipt ev now d' rid lg))
       \<and> map_option rd_fptp (rr_details (snd (verify_receipt ev now d' rid lg))) = Some True
       \<and> map_option rd_pr (rr_details (snd (verify_receipt ev now d' rid lg))) = Some True
       \<and> map_option rd_ballot_count (rr_details (snd (verify_receipt ev now d' rid lg))) = Some 2"
proof -
  from cast_with_token_receipt [OF c] obtain rh tss fv pv where
    g: "generate_receipt ev (receipt_hex dr 2) eid (clock dr 2) = (rid, rh, tss)"
    and vs: "votes d' = votes d @ [fv, pv]"
    and f: "receipt_id fv = Some rid" "receipt_hash fv = Some rh" "timestamp_str fv = Some tss"
       "vote_timestamp fv = clock dr 2" "vote_election_id fv = eid" "ballot_type fv = ''fptp''"
    and p: "receipt_id pv = Some rid" "ballot_type pv = ''pr''"
    by auto
  have old: "filter (\<lambda>x. receipt_id x = Some rid) (votes d) = []"
    using fresh by (simp add: filter_empty_conv)
  have found: "find_by_receipt_id d' rid = [fv, pv]"
    using vs f p old by (simp add: find_by_receipt_id_def)
  have tss: "tss = strftime_receipt ev (clock dr 2)"
    and rh: "rh = sha256_hex ev (rid @ '':'' @ eid @ '':'' @ tss)"
    using generate_receipt_nonempty [OF g] by simp_all
  have inp: "receipt_hash_input ev fv = rid @ '':'' @ eid @ '':'' @ tss"
    using f tss by (simp add: receipt_hash_input_def)
  show ?thesis
    using found inp rh f p
    by (simp add: verify_receipt_def Let_def)
qed

lemma filter_update_first:
  assumes "filter P xs = p # rest" and "P p'"
  shows "filter P (update_first P (\<lambda>_. p') xs) = p' # rest"
  using assms
proof (induction xs)
  case Nil
  then show ?case by simp
next
  case (Cons x xs)
  then show ?case by (cases "P x") auto
qed

lemma receipt_mutation_detected:
  assumes m: "find_by_receipt_id d rid = p # rest"
    and intact: "receipt_hash p = Some (sha256_hex ev (receipt_hash_input ev p))"
    and same: "receipt_id p' = Some rid" "receipt_hash p' = receipt_hash p"
    and mut: "(vote_election_id p' \<noteq> vote_election_id p \<and> timestamp_str p' = timestamp_str p
                 \<and> vote_timestamp p' = vote_timestamp p)
              \<or> (vote_election_id p' = vote_election_id p \<and> truthy (timestamp_str p)
                 \<and> truthy (timestamp_str p') \<and> timestamp_str p' \<noteq> timestamp_str p)"
    and nocoll: "sha256_hex ev (receipt_hash_input ev p') = sha256_hex ev (receipt_hash_input ev p)
                   \<longrightarrow> receipt_hash_input ev p' = receipt_hash_input ev p"
    and d': "votes d' = update_first (\<lambda>x. receipt_id x = Some rid) (\<lambda>_. p') (votes d)"
  shows "verify_receipt ev now d' rid lg =
           (d', \<lparr>rr_valid = False, rr_message = ''Receipt integrity check failed.'', rr_details = None\<rparr>)"
proof -
  have found: "find_by_receipt_id d' rid = p' # rest"
    using m same(1) d' filter_update_first [of "\<lambda>x. receipt_id x = Some rid" "votes d" p rest p']
    by (simp add: find_by_receipt_id_def)
  have rp: "receipt_id p = Some rid"
    using m by (metis (mono_tags, lifting) filter_eq_ConsD find_by_receipt_id_def)
  have "receipt_hash_input ev p' \<noteq> receipt_hash_input ev p"
    using mut
  proof
    assume a: "vote_election_id p' \<noteq> vote_election_id p \<and> timestamp_str p' = timestamp_str p
                 \<and> vote_timestamp p' = vote_timestamp p"
    then show ?thesis using rp same by (simp add: receipt_hash_input_def)
  next
    assume b: "vote_election_id p' = vote_election_id p \<and> truthy (timestamp_str p)
                 \<and> truthy (timestamp_str p') \<and> timestamp_str p' \<noteq> timestamp_str p"
    then obtain s s' where "timestamp_str p = Some s" "timestamp_str p' = Some s'" "s \<noteq> s'"
      by (cases "timestamp_str p"; cases "timestamp_str p'") auto
    then show ?thesis using b rp same by (simp add: receipt_hash_input_def)
  qed
  then have "Some (sha256_hex ev (receipt_hash_input ev p')) \<noteq> receipt_hash p'"
    using nocoll intact same by auto
  then show ?thesis using found by (simp add: verify_receipt_def Let_def)
qed


text \<open>
  The claim C6 as the specification states it fails on the code: only the first vote
  with the receipt id is checked. In \<open>cast_db\<close> both ballots carry the receipt
  \<open>RCP-AB\<close> and the receipt verifies. It still verifies after the election id of the
  second ballot is changed, after the receipt id of the first ballot is changed (the
  second ballot is then the first match), and after the stored timestamp string of the
  first ballot is emptied (the formatted timestamp is used in its place).
\<close>

theorem receipt_second_record_counterexample:
  "rr_valid (snd (verify_receipt demo_env 160 cast_db ''RCP-AB'' True))
   \<and> map receipt_id (votes cast_db) = [Some ''RCP-AB'', Some ''RCP-AB'']
   \<and> map vote_election_id (votes cast_db) = [''E1'', ''E1'']
   \<and> map vote_election_id (votes tampered_second_db) = [''E1'', ''E2'']
   \<and> rr_valid (snd (verify_receipt demo_env 160 tampered_second_db ''RCP-AB'' True))
   \<and> rr_valid (snd (verify_receipt demo_env 160 tampered_receipt_id_db ''RCP-AB'' True))
   \<and> rr_valid (snd (verify_receipt demo_env 160 tampered_empty_ts_db ''RCP-AB'' True))"
  by (simp add: cast_db_def tampered_second_db_def tampered_receipt_id_db_def
      tampered_empty_ts_db_def demo_defs service_defs verify_receipt_def find_by_receipt_id_def
      receipt_hash_input_def log_verification_update_def)

text \<open>
  C6, amended. After a successful dual-ballot cast whose receipt id was not in use,
  \<open>verify_receipt\<close> reports the receipt valid, with both ballots present.
  \<open>verify_receipt\<close> checks the first vote with the receipt id only: when that vote was
  intact and its election id is changed, or its stored timestamp string is changed from
  one non-empty string to another, \<open>verify_receipt\<close> fails with
  \<open>Receipt integrity check failed.\<close>, unless SHA-256 gives the changed string the hash
  of the original one. Changes to the other votes of the receipt, to a receipt id, and
  an emptied timestamp string are not covered.
\<close>

theorem receipt_integrity:
  "(cast_dual_ballot_with_token ev dr d v eid cid pid tid = (d1, v1, True, msg, Some (rid, shown))
      \<and> (\<forall>x \<in> set (votes d). receipt_id x \<noteq> Some rid)
    \<longrightarrow> rr_valid (snd (verify_receipt ev now d1 rid lg))
        \<and> map_option rd_fptp (rr_details (snd (verify_receipt ev now d1 rid lg))) = Some True
        \<and> map_option rd_pr (rr_details (snd (verify_receipt ev now d1 rid lg))) = Some True
        \<and> map_option rd_ballot_count (rr_details (snd (verify_receipt ev now d1 rid lg))) = Some 2)
   \<and> (find_by_receipt_id d rid = p # rest
      \<and> receipt_hash p = Some (sha256_hex ev (receipt_hash_input ev p))
      \<and> receipt_id p' = Some rid \<and> receipt_hash p' = receipt_hash p
      \<and> ((vote_election_id p' \<noteq> vote_election_id p \<and> timestamp_str p' = timestamp_str p
             \<and> vote_timestamp p' = vote_timestamp p)
           \<or> (vote_election_id p' = vote_election_id p \<and> truthy (timestamp_str p)
             \<and> truthy (timestamp_str p') \<and> timestamp_str p' \<noteq> timestamp_str p))
      \<and> (sha256_hex ev (receipt_hash_input ev p') = sha256_hex ev (receipt_hash_input ev p)
            \<longrightarrow> receipt_hash_input ev p' = receipt_hash_input ev p)
      \<and> votes d2 = update_first (\<lambda>x. receipt_id x = Some rid) (\<lambda>_. p') (votes d)
    \<longrightarrow> verify_receipt ev now d2 rid lg =
          (d2, \<lparr>rr_valid = False, rr_message = ''Receipt integrity check failed.'',
                rr_details = None\<rparr>))"
proof (intro conjI impI)
  assume a: "cast_dual_ballot_with_token ev dr d v eid cid pid tid = (d1, v1, True, msg, Some (rid, shown))
      \<and> (\<forall>x \<in> set (votes d). receipt_id x \<noteq> Some rid)"
  show "rr_valid (snd (verify_receipt ev now d1 rid lg))"
    using receipt_valid_after_cast a by blast
  show "map_option rd_fptp (rr_details (snd (verify_receipt ev now d1 rid lg))) = Some True"
    using receipt_valid_after_cast a by blast
  show "map_option rd_pr (rr_details (snd (verify_receipt ev now d1 rid lg))) = Some True"
    using receipt_valid_after_cast a by blast
  show "map_option rd_ballot_count (rr_details (snd (verify_receipt ev now d1 rid lg))) = Some 2"
    using receipt_valid_after_cast a by blast
next
  assume b: "find_by_receipt_id d rid = p # rest
      \<and> receipt_hash p = Some (sha256_hex ev (receipt_hash_input ev p))
      \<and> receipt_id p' = Some rid \<and> receipt_hash p' = receipt_hash p
      \<and> ((vote_election_id p' \<noteq> vote_election_id p \<and> timestamp_str p' = timestamp_str p
             \<and> vote_timestamp p' = vote_timestamp p)
           \<or> (vote_election_id p' = vote_election_id p \<and> truthy (timestamp_str p)
             \<and> truthy (timestamp_str p') \<and> timestamp_str p' \<noteq> timestamp_str p))
      \<and> (sha256_hex ev (receipt_hash_input ev p') = sha256_hex ev (receipt_hash_input ev p)
            \<longrightarrow> receipt_hash_input ev p' = receipt_hash_input ev p)
      \<and> votes d2 = update_first (\<lambda>x. receipt_id x = Some rid) (\<lambda>_. p') (votes d)"
  show "verify_receipt ev now d2 rid lg =
          (d2, \<lparr>rr_valid = False, rr_message = ''Receipt integrity check failed.'',
                rr_details = None\<rparr>)"
    by (rule receipt_mutation_detected [of d rid p rest ev p' d2]) (use b in simp_all)
qed

theorem receipt_integrity_witness:
  "cast_dual_ballot_with_token demo_env demo_draws issued_db issued_voter ''E1'' ''C1'' ''P1'' ''T1'' =
     (cast_db, issued_voter\<lparr>elections_voted := [''E1'']\<rparr>, True,
      ''Your dual ballot has been cast successfully!'', Some (''RCP-AB'', ''ts''))
   \<and> votes issued_db = []
   \<and> rr_valid (snd (verify_receipt demo_env 160 cast_db ''RCP-AB'' True))
   \<and> find_by_receipt_id cast_db ''RCP-AB'' = [votes cast_db ! 0, votes cast_db ! 1]
   \<and> vote_election_id (votes cast_db ! 0) = ''E1''
   \<and> map vote_election_id (votes tampered_first_db) = [''E2'', ''E1'']
   \<and> verify_receipt demo_env 160 tampered_first_db ''RCP-AB'' True =
        (tampered_first_db, \<lparr>rr_valid = False, rr_message = ''Receipt integrity check failed.'',
                              rr_details = None\<rparr>)"
proof -
  have c: "cast_dual_ballot_with_token demo_env demo_draws issued_db issued_voter ''E1'' ''C1'' ''P1'' ''T1'' =
     (cast_db, issued_voter\<lparr>elections_voted := [''E1'']\<rparr>, True,
      ''Your dual ballot has been cast successfully!'', Some (''RCP-AB'', ''ts''))"
    by (simp add: cast_db_def demo_defs service_defs)
  have e: "votes issued_db = []" by (simp add: demo_defs)
  have f: "find_by_receipt_id cast_db ''RCP-AB'' = [votes cast_db ! 0, votes cast_db ! 1]
           \<and> vote_election_id (votes cast_db ! 0) = ''E1''
           \<and> receipt_hash (votes cast_db ! 0) =
               Some (sha256_hex demo_env (receipt_hash_input demo_env (votes cast_db ! 0)))
           \<and> map vote_election_id (votes tampered_first_db) = [''E2'', ''E1'']
           \<and> votes tampered_first_db =
               update_first (\<lambda>x. receipt_id x = Some ''RCP-AB'')
                 (\<lambda>_. (votes cast_db ! 0)\<lparr>vote_election_id := ''E2''\<rparr>) (votes cast_db)
           \<and> receipt_id (votes cast_db ! 0) = Some ''RCP-AB''"
    by (simp add: cast_db_def tampered_first_db_def demo_defs service_defs find_by_receipt_id_def
        receipt_hash_input_def)
  have n: "sha256_hex demo_env (receipt_hash_input demo_env
                 ((votes cast_db ! 0)\<lparr>vote_election_id := ''E2''\<rparr>))
             = sha256_hex demo_env (receipt_hash_input demo_env (votes cast_db ! 0))
           \<longrightarrow> receipt_hash_input demo_env ((votes cast_db ! 0)\<lparr>vote_election_id := ''E2''\<rparr>)
             = receipt_hash_input demo_env (votes cast_db ! 0)"
    by (simp add: demo_env_def)
  have r1: "rr_valid (snd (verify_receipt demo_env 160 cast_db ''RCP-AB'' True))"
    using c e
      receipt_integrity [where ev = demo_env and dr = demo_draws and d = issued_db
        and v = issued_voter and eid = "''E1''" and cid = "''C1''" and pid = "''P1''"
        and tid = "''T1''" and ?d1.0 = cast_db and ?v1.0 = "issued_voter\<lparr>elections_voted := [''E1'']\<rparr>"
        and msg = "''Your dual ballot has been cast successfully!''" and rid = "''RCP-AB''"
        and shown = "''ts''" and now = 160 and lg = True, THEN conjunct1]
    by simp
  have r2: "verify_receipt demo_env 160 tampered_first_db ''RCP-AB'' True =
        (tampered_first_db, \<lparr>rr_valid = False, rr_message = ''Receipt integrity check failed.'',
                              rr_details = None\<rparr>)"
    using f n
      receipt_integrity [where ev = demo_env and d = cast_db and rid = "''RCP-AB''"
        and p = "votes cast_db ! 0" and rest = "[votes cast_db ! 1]"
        and p' = "(votes cast_db ! 0)\<lparr>vote_election_id := ''E2''\<rparr>"
        and ?d2.0 = tampered_first_db and now = 160 and lg = True, THEN conjunct2]
    by simp
  show ?thesis
    by (intro conjI) (use c e f r1 r2 in blast)+
qed

end
